theory Spec2Isabelle
  imports Main
begin

section \<open>RemotePython (src/main.py): a shallow embedding\<close>

text \<open>
  The class \<open>RemotePython\<close> of \<open>src/main.py\<close> drives a Python runtime inside another
  process. Its methods are modelled as state-passing functions that return the outcome
  (a raised exception or a value), the object and world they leave behind, and the list
  of calls they made to their collaborators. The collaborators are the Win32 calls, the
  \<open>pathlib\<close> conversion and the helper methods that \<open>main.py\<close> calls but does not define;
  they are parameters of the model (the record \<open>env\<close>), so every theorem quantified
  over \<open>env\<close> holds whatever these collaborators do.
\<close>

subsection \<open>Python values and exceptions\<close>

text \<open>
  Python is dynamically typed: arguments, attributes and helper results are values of
  one type. \<open>PyObj\<close> stands for an opaque object (a handle, a shelf, a module).
  \<open>ProcessInfo\<close> is the dataclass of lines 22--26.
\<close>

datatype pyval =
    PyNone
  | PyBool bool
  | PyInt int
  | PyStr string
  | PyObj nat
  | ProcessInfo (pid: pyval) (handle: pyval) (executable: pyval)

text \<open>Truth value testing, as used by \<open>or\<close>, \<open>not\<close> and \<open>and\<close>.\<close>

fun truthy :: "pyval \<Rightarrow> bool" where
  "truthy PyNone = False"
| "truthy (PyBool b) = b"
| "truthy (PyInt i) = (i \<noteq> 0)"
| "truthy (PyStr s) = (s \<noteq> [])"
| "truthy (PyObj n) = True"
| "truthy (ProcessInfo p h e) = True"

text \<open>\<open>isinstance(v, str)\<close>.\<close>

fun isinstance_str :: "pyval \<Rightarrow> bool" where
  "isinstance_str (PyStr s) = True"
| "isinstance_str v = False"

text \<open>
  The exception classes of lines 10--20 (\<open>InjectionError\<close> and \<open>InitializationError\<close>
  are subclasses of \<open>RemotePythonError\<close>), the two built-in classes the code can raise
  itself, and \<open>External\<close> for any other subclass of \<open>Exception\<close> that a collaborator
  raises, with its class name. An exception value carries its class and the text that
  \<open>str(e)\<close> yields. Exceptions outside \<open>Exception\<close> (\<open>KeyboardInterrupt\<close>,
  \<open>SystemExit\<close>) are not part of the model.
\<close>

datatype exn_class =
    TypeError
  | AttributeError
  | RemotePythonError
  | InjectionError
  | InitializationError
  | External string

datatype exn = Exn (cls: exn_class) (msg: string)

subsection \<open>Object state, collaborators and observable calls\<close>

text \<open>
  The object is its attribute dictionary, so that \<open>hasattr\<close> is a lookup. Everything
  else the collaborators can read or change (the operating system, the target process,
  the cache file) is the component \<open>world\<close>.
\<close>

record 'w state =
  attrs :: "string \<rightharpoonup> pyval"
  world :: 'w

type_synonym 'w helper = "'w state \<Rightarrow> (exn + pyval) \<times> 'w state"

type_synonym 'w oscall = "'w \<Rightarrow> (exn + pyval) \<times> 'w"

text \<open>
  \<open>OpenProcess\<close> and \<open>GetModuleFileNameEx\<close> are the Win32 calls of lines 64--69
  (the constant arguments \<open>PROCESS_ALL_ACCESS\<close>, \<open>False\<close> and \<open>0\<close> are left out),
  \<open>str_Path p\<close> is \<open>str(Path(p))\<close> of line 121, and the other fields are the methods
  that the class calls on \<open>self\<close> without defining them.
\<close>

record 'w env =
  OpenProcess :: "pyval \<Rightarrow> 'w oscall"
  GetModuleFileNameEx :: "pyval \<Rightarrow> 'w oscall"
  str_Path :: "string \<Rightarrow> string"
  get_default_python_dll :: "'w helper"
  initialize_cache :: "pyval \<Rightarrow> 'w helper"
  inject_dll :: "pyval \<Rightarrow> 'w helper"
  is_python_injected :: "'w helper"
  initialize_python :: "'w helper"
  is_python_initialized :: "'w helper"
  get_proc_address :: "string \<Rightarrow> 'w helper"
  execute_remote :: "string \<Rightarrow> pyval list \<Rightarrow> 'w helper"
  unload_dll :: "pyval \<Rightarrow> 'w helper"
  close_process :: "'w helper"
  close_cache :: "'w helper"

text \<open>One event per call of a collaborator, and one per \<open>print\<close>.\<close>

datatype event =
    E_OpenProcess pyval
  | E_GetModuleFileNameEx pyval
  | E_get_default_python_dll
  | E_initialize_cache pyval
  | E_inject_dll pyval
  | E_is_python_injected
  | E_initialize_python
  | E_is_python_initialized
  | E_get_proc_address string
  | E_execute_remote string "pyval list"
  | E_unload_dll pyval
  | E_close_process
  | E_close_cache
  | E_print string

text \<open>
  A method body: from a state to its outcome (\<open>Inl\<close> a raised exception, \<open>Inr\<close> the
  returned value), the state it leaves, and the events it emitted, in order.
\<close>

type_synonym ('w, 'a) prog = "'w state \<Rightarrow> (exn + 'a) \<times> 'w state \<times> event list"

definition outcome :: "(exn + 'a) \<times> 'w state \<times> event list \<Rightarrow> exn + 'a" where
  "outcome r = fst r"

definition final :: "(exn + 'a) \<times> 'w state \<times> event list \<Rightarrow> 'w state" where
  "final r = fst (snd r)"

definition events :: "(exn + 'a) \<times> 'w state \<times> event list \<Rightarrow> event list" where
  "events r = snd (snd r)"

definition ret :: "'a \<Rightarrow> ('w, 'a) prog" where
  "ret v s = (Inr v, s, [])"

definition throw :: "exn \<Rightarrow> ('w, 'a) prog" where
  "throw e s = (Inl e, s, [])"

text \<open>Sequencing: the second statement runs only if the first did not raise.\<close>

definition bind :: "('w, 'a) prog \<Rightarrow> ('a \<Rightarrow> ('w, 'b) prog) \<Rightarrow> ('w, 'b) prog" where
  "bind m f s =
     (case m s of
        (Inl e, s1, t1) \<Rightarrow> (Inl e, s1, t1)
      | (Inr v, s1, t1) \<Rightarrow> (case f v s1 of (r, s2, t2) \<Rightarrow> (r, s2, t1 @ t2)))"

text \<open>\<open>try: m except Exception as e: h e\<close>.\<close>

definition try_except :: "('w, 'a) prog \<Rightarrow> (exn \<Rightarrow> ('w, 'a) prog) \<Rightarrow> ('w, 'a) prog" where
  "try_except m h s =
     (case m s of
        (Inr v, s1, t1) \<Rightarrow> (Inr v, s1, t1)
      | (Inl e, s1, t1) \<Rightarrow> (case h e s1 of (r, s2, t2) \<Rightarrow> (r, s2, t1 @ t2)))"

text \<open>Calling a helper method, or a Win32 function, records the call.\<close>

definition call :: "event \<Rightarrow> 'w helper \<Rightarrow> ('w, pyval) prog" where
  "call ev h s = (case h s of (r, s1) \<Rightarrow> (r, s1, [ev]))"

definition call_os :: "event \<Rightarrow> 'w oscall \<Rightarrow> ('w, pyval) prog" where
  "call_os ev f s = (case f (world s) of (r, w1) \<Rightarrow> (r, s\<lparr>world := w1\<rparr>, [ev]))"

definition print :: "string \<Rightarrow> ('w, pyval) prog" where
  "print text s = (Inr PyNone, s, [E_print text])"

text \<open>Attribute access: reading a missing attribute raises \<open>AttributeError\<close>.\<close>

definition hasattr :: "string \<Rightarrow> 'w state \<Rightarrow> bool" where
  "hasattr name s = (attrs s name \<noteq> None)"

definition get_attr :: "string \<Rightarrow> ('w, pyval) prog" where
  "get_attr name s =
     (case attrs s name of
        Some v \<Rightarrow> (Inr v, s, [])
      | None \<Rightarrow> (Inl (Exn AttributeError
            ([CHR 0x27] @ ''RemotePython'' @ [CHR 0x27] @ '' object has no attribute '' @
             [CHR 0x27] @ name @ [CHR 0x27])), s, []))"

definition set_attr :: "string \<Rightarrow> pyval \<Rightarrow> ('w, pyval) prog" where
  "set_attr name v s = (Inr PyNone, s\<lparr>attrs := (attrs s)(name \<mapsto> v)\<rparr>, [])"

text \<open>\<open>sep.join(xs)\<close>.\<close>

fun join :: "string \<Rightarrow> string list \<Rightarrow> string" where
  "join sep [] = []"
| "join sep [x] = x"
| "join sep (x # y # ys) = x @ sep @ join sep (y # ys)"

subsection \<open>The methods of \<open>RemotePython\<close>\<close>

text \<open>Lines 126--132, the guarded first statement of \<open>cleanup\<close>.\<close>

definition cleanup_remote :: "'w env \<Rightarrow> ('w, pyval) prog" where
  "cleanup_remote env s =
     (if hasattr ''_remote_dll'' s then
        try_except
          (bind (call (E_execute_remote ''Py_Finalize'' [])
                      (execute_remote env ''Py_Finalize'' [])) (\<lambda>_.
           bind (get_attr ''_remote_dll'') (\<lambda>dll.
           bind (call (E_unload_dll dll) (unload_dll env dll)) (\<lambda>_.
           ret PyNone))))
          (\<lambda>e s1.
             if (case attrs s1 ''_debug'' of Some d \<Rightarrow> truthy d | None \<Rightarrow> False)
             then print (''Cleanup error: '' @ msg e) s1
             else ret PyNone s1) s
      else ret PyNone s)"

text \<open>Lines 124--135.\<close>

definition cleanup :: "'w env \<Rightarrow> ('w, pyval) prog" where
  "cleanup env =
     bind (cleanup_remote env) (\<lambda>_.
     bind (call E_close_process (close_process env)) (\<lambda>_.
     bind (call E_close_cache (close_cache env)) (\<lambda>_.
     ret PyNone)))"

text \<open>Lines 61--72.\<close>

definition initialize_process :: "'w env \<Rightarrow> pyval \<Rightarrow> ('w, pyval) prog" where
  "initialize_process env p =
     try_except
       (bind (call_os (E_OpenProcess p) (OpenProcess env p)) (\<lambda>h.
        bind (call_os (E_GetModuleFileNameEx h) (GetModuleFileNameEx env h)) (\<lambda>exe_path.
        ret (ProcessInfo p h exe_path))))
       (\<lambda>e. throw (Exn RemotePythonError (''Failed to initialize process: '' @ msg e)))"

text \<open>Lines 77--87, the body of the \<open>try\<close> of \<open>_inject_and_initialize\<close>.\<close>

definition inject_and_initialize_body :: "'w env \<Rightarrow> ('w, pyval) prog" where
  "inject_and_initialize_body env =
     bind (get_attr ''_dll_path'') (\<lambda>path.
     bind (call (E_inject_dll path) (inject_dll env path)) (\<lambda>dll.
     bind (set_attr ''_remote_dll'' dll) (\<lambda>_.
     bind (call E_is_python_injected (is_python_injected env)) (\<lambda>injected.
     bind (if \<not> truthy injected
           then throw (Exn InjectionError ''Python DLL injection failed'')
           else ret PyNone) (\<lambda>_.
     bind (call E_initialize_python (initialize_python env)) (\<lambda>_.
     bind (call E_is_python_initialized (is_python_initialized env)) (\<lambda>initialized.
     bind (if \<not> truthy initialized
           then throw (Exn InitializationError ''Python initialization failed'')
           else ret PyNone) (\<lambda>_.
     bind (call (E_get_proc_address ''Py_Finalize'') (get_proc_address env ''Py_Finalize'')) (\<lambda>_.
     ret (PyBool True))))))))))"

text \<open>Lines 74--91. An exception raised by \<open>cleanup\<close> inside the handler replaces the
  \<open>RemotePythonError\<close> that line 91 would raise.\<close>

definition inject_and_initialize :: "'w env \<Rightarrow> ('w, pyval) prog" where
  "inject_and_initialize env =
     try_except (inject_and_initialize_body env)
       (\<lambda>e. bind (cleanup env) (\<lambda>_.
             throw (Exn RemotePythonError (''Injection/initialization failed: '' @ msg e))))"

text \<open>Lines 54--56, the three assignments that open \<open>__init__\<close>.\<close>

definition init_attributes :: "'w env \<Rightarrow> pyval \<Rightarrow> pyval \<Rightarrow> pyval \<Rightarrow> ('w, pyval) prog" where
  "init_attributes env p python_dll_path shelf_name =
     bind (initialize_process env p) (\<lambda>process.
     bind (set_attr ''_process'' process) (\<lambda>_.
     bind (if truthy python_dll_path then ret python_dll_path
           else call E_get_default_python_dll (get_default_python_dll env)) (\<lambda>path.
     bind (set_attr ''_dll_path'' path) (\<lambda>_.
     bind (call (E_initialize_cache shelf_name) (initialize_cache env shelf_name)) (\<lambda>cache.
     set_attr ''_proc_cache'' cache)))))"

text \<open>Lines 48--59, \<open>__init__\<close>.\<close>

definition init :: "'w env \<Rightarrow> pyval \<Rightarrow> pyval \<Rightarrow> pyval \<Rightarrow> ('w, pyval) prog" where
  "init env p python_dll_path shelf_name =
     bind (init_attributes env p python_dll_path shelf_name) (\<lambda>_.
     bind (inject_and_initialize env) (\<lambda>ok.
     if \<not> truthy ok
     then throw (Exn InitializationError ''Failed to initialize remote Python environment'')
     else ret PyNone))"

text \<open>\<open>RemotePython(pid, python_dll_path, shelf_name)\<close>: \<open>__init__\<close> on a fresh object.\<close>

definition construct :: "'w env \<Rightarrow> pyval \<Rightarrow> pyval \<Rightarrow> pyval \<Rightarrow> 'w \<Rightarrow>
    (exn + pyval) \<times> 'w state \<times> event list" where
  "construct env p python_dll_path shelf_name w =
     init env p python_dll_path shelf_name \<lparr>attrs = Map.empty, world = w\<rparr>"

text \<open>Lines 93--112.\<close>

definition run :: "'w env \<Rightarrow> pyval \<Rightarrow> ('w, pyval) prog" where
  "run env code =
     (if \<not> isinstance_str code then throw (Exn TypeError ''Code must be a string'')
      else try_except
             (call (E_execute_remote ''PyRun_SimpleString'' [code])
                   (execute_remote env ''PyRun_SimpleString'' [code]))
             (\<lambda>e. throw (Exn RemotePythonError (''Code execution failed: '' @ msg e))))"

text \<open>Lines 114--122.\<close>

definition set_python_path :: "'w env \<Rightarrow> string list \<Rightarrow> ('w, pyval) prog" where
  "set_python_path env paths =
     (let path_str = join '';'' (map (str_Path env) paths)
      in bind (call (E_execute_remote ''PySys_SetPath'' [PyStr path_str])
                    (execute_remote env ''PySys_SetPath'' [PyStr path_str])) (\<lambda>_.
         ret PyNone))"

text \<open>Lines 143--145, \<open>__call__\<close>.\<close>

definition call_session :: "'w env \<Rightarrow> pyval \<Rightarrow> ('w, pyval) prog" where
  "call_session env code = run env code"

subsection \<open>Symbol resolution with a cache\<close>

text \<open>
  \<open>_get_proc_address\<close> is called at line 86 (``Cache Py_Finalize for cleanup'') but is
  defined nowhere in \<open>src/main.py\<close>. What it does is taken from sections 3 and 4.3 of
  the specification.
\<close>

text \<open>
  Modelled from the spec: the data of the missing \<open>_get_proc_address\<close>. A remote module
  is its base address and its library path (section 3). The cache maps the key (library
  path, symbol name) to an offset relative to the module base, in an in-process cache
  and in the persistent store (section 4.3); \<open>parses\<close> counts the export-table parses
  (the resolution counter of section 8).
\<close>

record RemoteModule =
  baseAddress :: nat
  libraryPath :: string

record resolver =
  in_process_cache :: "string \<times> string \<rightharpoonup> nat"
  persistent_store :: "string \<times> string \<rightharpoonup> nat"
  parses :: nat

datatype resolve_error = SymbolNotFoundError

text \<open>
  Modelled from the spec: the cache lookup of the missing \<open>_get_proc_address\<close>. It
  consults the in-process cache and then the persistent store.
\<close>

definition cache_lookup :: "resolver \<Rightarrow> string \<times> string \<Rightarrow> nat option" where
  "cache_lookup r k =
     (case in_process_cache r k of Some off \<Rightarrow> Some off | None \<Rightarrow> persistent_store r k)"

text \<open>
  Modelled from the spec: the missing \<open>_get_proc_address\<close>, which section 4.3 describes as
  \<open>resolveAddress(remoteModule, symbolName)\<close>. Look the key up in the cache; on a hit
  return the module's base plus the cached offset; on a miss parse the library's export
  table, fail with \<open>SymbolNotFoundError\<close> if the symbol is absent, otherwise store the
  offset in the in-process cache and in the persistent store and return the base plus
  the offset. The export tables of the libraries on disk are the parameter \<open>exports\<close>.
\<close>

definition resolveAddress ::
    "(string \<Rightarrow> string \<rightharpoonup> nat) \<Rightarrow> RemoteModule \<Rightarrow> string \<Rightarrow> resolver \<Rightarrow>
     (resolve_error + nat) \<times> resolver" where
  "resolveAddress exports m symbolName r =
     (let k = (libraryPath m, symbolName) in
      case cache_lookup r k of
        Some cachedOffset \<Rightarrow> (Inr (baseAddress m + cachedOffset), r)
      | None \<Rightarrow>
          (let r1 = r\<lparr>parses := parses r + 1\<rparr> in
           case exports (libraryPath m) symbolName of
             None \<Rightarrow> (Inl SymbolNotFoundError, r1)
           | Some off \<Rightarrow>
               (Inr (baseAddress m + off),
                r1\<lparr>in_process_cache := (in_process_cache r1)(k \<mapsto> off),
                   persistent_store := (persistent_store r1)(k \<mapsto> off)\<rparr>)))"

subsection \<open>A concrete target, for evaluating the model\<close>

text \<open>
  A small world: one target process (pid 1234) that can be opened, a library that loads,
  a runtime that starts, and a cache. Every collaborator succeeds, except that opening
  any other process id is refused.
\<close>

record target =
  process_open :: bool
  dll_loaded :: bool
  python_running :: bool
  cache_open :: bool

definition bslash :: char where
  "bslash = CHR 0x5C"

text \<open>\<open>s.split(c)\<close>.\<close>

fun split_on :: "char \<Rightarrow> string \<Rightarrow> string list" where
  "split_on c [] = [[]]"
| "split_on c (x # xs) =
     (if x = c then [] # split_on c xs
      else (case split_on c xs of [] \<Rightarrow> [[x]] | y # ys \<Rightarrow> (x # y) # ys))"

definition is_drive_letter :: "char \<Rightarrow> bool" where
  "is_drive_letter c =
     (let n = (of_char c :: nat) in (65 \<le> n \<and> n \<le> 90) \<or> (97 \<le> n \<and> n \<le> 122))"

text \<open>
  \<open>str(Path(p))\<close> on Windows, for paths made of an optional drive letter, an optional
  root and components (paths that begin with two separators, the UNC and device forms,
  are not covered): \<open>/\<close> becomes \<open>\\<close>, the drive and the root are split off, empty
  and \<open>.\<close> components are dropped, and the empty result is written \<open>.\<close>.
\<close>

definition windows_str_Path :: "string \<Rightarrow> string" where
  "windows_str_Path p =
     (let q = map (\<lambda>c. if c = CHR ''/'' then bslash else c) p;
          has_drv = (2 \<le> length q \<and> q ! 1 = CHR '':'' \<and> is_drive_letter (q ! 0));
          drv = (if has_drv then take 2 q else []);
          r1 = (if has_drv then drop 2 q else q);
          has_root = (r1 \<noteq> [] \<and> hd r1 = bslash);
          root = (if has_root then [bslash] else []);
          rel = (if has_root then dropWhile (\<lambda>c. c = bslash) r1 else r1);
          parts = filter (\<lambda>x. x \<noteq> [] \<and> x \<noteq> ''.'') (split_on bslash rel);
          out = drv @ root @ join [bslash] parts
      in if out = [] then ''.'' else out)"

definition set_world :: "'w state \<Rightarrow> 'w \<Rightarrow> 'w state" where
  "set_world s w = s\<lparr>world := w\<rparr>"

definition demo_env :: "target env" where
  "demo_env = \<lparr>
     OpenProcess = (\<lambda>p w.
       if p = PyInt 1234 then (Inr (PyObj 1), w\<lparr>process_open := True\<rparr>)
       else (Inl (Exn (External ''pywintypes.error'') ''The parameter is incorrect.''), w)),
     GetModuleFileNameEx = (\<lambda>h w. (Inr (PyStr ''target.exe''), w)),
     str_Path = windows_str_Path,
     get_default_python_dll = (\<lambda>s. (Inr (PyStr ''python311.dll''), s)),
     initialize_cache = (\<lambda>n s. (Inr (PyObj 2), set_world s ((world s)\<lparr>cache_open := True\<rparr>))),
     inject_dll = (\<lambda>p s. (Inr (PyInt 4194304), set_world s ((world s)\<lparr>dll_loaded := True\<rparr>))),
     is_python_injected = (\<lambda>s. (Inr (PyBool (dll_loaded (world s))), s)),
     initialize_python = (\<lambda>s. (Inr PyNone, set_world s ((world s)\<lparr>python_running := True\<rparr>))),
     is_python_initialized = (\<lambda>s. (Inr (PyBool (python_running (world s))), s)),
     get_proc_address = (\<lambda>n s. (Inr (PyInt 4198400), s)),
     execute_remote = (\<lambda>n args s.
       if n = ''Py_Finalize''
       then (Inr (PyInt 0), set_world s ((world s)\<lparr>python_running := False\<rparr>))
       else (Inr (PyInt 0), s)),
     unload_dll = (\<lambda>d s. (Inr PyNone, set_world s ((world s)\<lparr>dll_loaded := False\<rparr>))),
     close_process = (\<lambda>s. (Inr PyNone, set_world s ((world s)\<lparr>process_open := False\<rparr>))),
     close_cache = (\<lambda>s. (Inr PyNone, set_world s ((world s)\<lparr>cache_open := False\<rparr>)))
   \<rparr>"

definition idle_target :: target where
  "idle_target = \<lparr>process_open = False, dll_loaded = False,
                   python_running = False, cache_open = False\<rparr>"

text \<open>The session that \<open>RemotePython(1234)\<close> builds on the idle target.\<close>

definition demo_session :: "target state" where
  "demo_session = final (construct demo_env (PyInt 1234) PyNone PyNone idle_target)"

text \<open>Variants in which one collaborator fails.\<close>

definition os_error :: "string \<Rightarrow> exn" where
  "os_error text = Exn (External ''OSError'') text"

definition failing_inject_env :: "target env" where
  "failing_inject_env = demo_env\<lparr>inject_dll := (\<lambda>p s. (Inl (os_error ''injection refused''), s))\<rparr>"

definition failing_close_env :: "target env" where
  "failing_close_env = demo_env\<lparr>close_process := (\<lambda>s. (Inl (os_error ''invalid handle''), s))\<rparr>"

definition failing_run_env :: "target env" where
  "failing_run_env = demo_env\<lparr>execute_remote := (\<lambda>n args s. (Inl (os_error ''thread creation failed''), s))\<rparr>"

definition failing_cache_env :: "target env" where
  "failing_cache_env = demo_env\<lparr>initialize_cache := (\<lambda>n s. (Inl (os_error ''cannot open shelf''), s))\<rparr>"

definition failing_modname_env :: "target env" where
  "failing_modname_env = demo_env\<lparr>GetModuleFileNameEx :=
     (\<lambda>h w. (Inl (Exn (External ''pywintypes.error'') ''Access is denied.''), w))\<rparr>"

text \<open>
  A remote execution that brings the target down: the call fails, and it leaves the
  object without its \<open>_remote_dll\<close> attribute and the world without the open process.
\<close>

definition wrecking_run_env :: "target env" where
  "wrecking_run_env = demo_env\<lparr>execute_remote := (\<lambda>n args s.
     (Inl (os_error ''target crashed''),
      \<lparr>attrs = (attrs s)(''_remote_dll'' := None),
       world = (world s)\<lparr>process_open := False, dll_loaded := False,
                          python_running := False\<rparr>\<rparr>))\<rparr>"

text \<open>The fresh object on which \<open>RemotePython(...)\<close> runs \<open>__init__\<close>.\<close>

definition fresh_session :: "target state" where
  "fresh_session = \<lparr>attrs = Map.empty, world = idle_target\<rparr>"

text \<open>A library with two exports, loaded at base address \<open>0x400000\<close>, and a cold cache.\<close>

definition demo_exports :: "string \<Rightarrow> string \<rightharpoonup> nat" where
  "demo_exports lib =
     (if lib = ''python311.dll''
      then [''Py_Finalize'' \<mapsto> 4096, ''PyRun_SimpleString'' \<mapsto> 8192]
      else Map.empty)"

definition demo_module :: RemoteModule where
  "demo_module = \<lparr>baseAddress = 4194304, libraryPath = ''python311.dll''\<rparr>"

definition cold_resolver :: resolver where
  "cold_resolver = \<lparr>in_process_cache = Map.empty, persistent_store = Map.empty, parses = 0\<rparr>"

section \<open>Properties\<close>

subsection \<open>Unfolding the methods\<close>

lemmas prog_defs = bind_def try_except_def call_def call_os_def ret_def throw_def print_def
  get_attr_def set_attr_def hasattr_def outcome_def final_def events_def

lemmas method_defs = construct_def init_def init_attributes_def initialize_process_def
  inject_and_initialize_def inject_and_initialize_body_def cleanup_def cleanup_remote_def
  run_def set_python_path_def

lemmas demo_defs = demo_env_def failing_inject_env_def failing_close_env_def
  failing_run_env_def failing_cache_env_def failing_modname_env_def wrecking_run_env_def
  set_world_def idle_target_def os_error_def
  fresh_session_def

text \<open>The guarded statement of \<open>cleanup\<close> returns whatever the helpers do.\<close>

lemma cleanup_remote_returns: "\<exists>s1 t1. cleanup_remote env s = (Inr PyNone, s1, t1)"
  by (auto simp: cleanup_remote_def try_except_def bind_def call_def get_attr_def ret_def print_def
      split: prod.splits sum.splits option.splits)

lemma cleanup_unfold:
  assumes "cleanup_remote env s = (Inr PyNone, s1, t1)"
  shows "cleanup env s =
     (case close_process env s1 of
        (Inl e, s2) \<Rightarrow> (Inl e, s2, t1 @ [E_close_process])
      | (Inr v, s2) \<Rightarrow>
          (case close_cache env s2 of
             (Inl e, s3) \<Rightarrow> (Inl e, s3, t1 @ [E_close_process, E_close_cache])
           | (Inr w, s3) \<Rightarrow> (Inr PyNone, s3, t1 @ [E_close_process, E_close_cache])))"
  using assms
  by (simp add: cleanup_def bind_def call_def ret_def split: prod.splits sum.splits)

lemma cleanup_remote_first_event:
  assumes "hasattr ''_remote_dll'' s"
  shows "\<exists>t. events (cleanup_remote env s) = E_execute_remote ''Py_Finalize'' [] # t"
  using assms
  by (auto simp: cleanup_remote_def try_except_def bind_def call_def get_attr_def ret_def
      print_def events_def split: prod.splits sum.splits option.splits)

lemma cleanup_calls_close_process: "E_close_process \<in> set (events (cleanup env s))"
proof -
  obtain s1 t1 where r: "cleanup_remote env s = (Inr PyNone, s1, t1)"
    using cleanup_remote_returns by blast
  show ?thesis
    unfolding cleanup_unfold [OF r] events_def
    by (simp split: prod.splits sum.splits)
qed

lemma cleanup_first_event:
  assumes "hasattr ''_remote_dll'' s"
  shows "hd (events (cleanup env s)) = E_execute_remote ''Py_Finalize'' []"
proof -
  obtain s1 t1 where r: "cleanup_remote env s = (Inr PyNone, s1, t1)"
    using cleanup_remote_returns by blast
  obtain t where "events (cleanup_remote env s) = E_execute_remote ''Py_Finalize'' [] # t"
    using cleanup_remote_first_event [OF assms] by blast
  with r have t1: "t1 = E_execute_remote ''Py_Finalize'' [] # t"
    by (simp add: events_def)
  show ?thesis
    unfolding cleanup_unfold [OF r] events_def t1
    by (simp split: prod.splits sum.splits)
qed

text \<open>\<open>run\<close> on a string is one call of \<open>_execute_remote\<close>, its failure wrapped.\<close>

lemma run_str:
  "run env (PyStr c) s =
     (case execute_remote env ''PyRun_SimpleString'' [PyStr c] s of
        (Inr v, s1) \<Rightarrow> (Inr v, s1, [E_execute_remote ''PyRun_SimpleString'' [PyStr c]])
      | (Inl e, s1) \<Rightarrow>
          (Inl (Exn RemotePythonError (''Code execution failed: '' @ msg e)), s1,
           [E_execute_remote ''PyRun_SimpleString'' [PyStr c]]))"
  by (simp add: run_def try_except_def call_def throw_def split: prod.splits sum.splits)

text \<open>
  The \<open>try\<close> body of \<open>_inject_and_initialize\<close> returns \<open>True\<close> or raises, so the
  method never returns a false value and line 59 is never reached.
\<close>

lemma body_returns_True:
  assumes "inject_and_initialize_body env s = (Inr v, s1, t1)"
  shows "v = PyBool True"
  using assms
  by (auto simp: inject_and_initialize_body_def bind_def call_def get_attr_def set_attr_def
      ret_def throw_def split: prod.splits sum.splits option.splits if_splits)

lemma inject_and_initialize_ok:
  assumes "inject_and_initialize_body env s = (Inr v, s1, t1)"
  shows "inject_and_initialize env s = (Inr v, s1, t1)"
  using assms by (simp add: inject_and_initialize_def try_except_def)

lemma inject_and_initialize_failed:
  assumes "inject_and_initialize_body env s = (Inl c, s1, t1)"
  shows "inject_and_initialize env s =
     ((case outcome (cleanup env s1) of
         Inl x \<Rightarrow> Inl x
       | Inr u \<Rightarrow> Inl (Exn RemotePythonError (''Injection/initialization failed: '' @ msg c))),
      final (cleanup env s1), t1 @ events (cleanup env s1))"
  using assms
  by (simp add: inject_and_initialize_def try_except_def bind_def throw_def outcome_def
      final_def events_def split: prod.splits sum.splits)

subsection \<open>The concrete target\<close>

lemma demo_construct:
  "construct demo_env (PyInt 1234) PyNone PyNone idle_target =
     (Inr PyNone,
      \<lparr>attrs = [''_process'' \<mapsto> ProcessInfo (PyInt 1234) (PyObj 1) (PyStr ''target.exe''),
                ''_dll_path'' \<mapsto> PyStr ''python311.dll'',
                ''_proc_cache'' \<mapsto> PyObj 2,
                ''_remote_dll'' \<mapsto> PyInt 4194304],
       world = \<lparr>process_open = True, dll_loaded = True, python_running = True,
                cache_open = True\<rparr>\<rparr>,
      [E_OpenProcess (PyInt 1234), E_GetModuleFileNameEx (PyObj 1), E_get_default_python_dll,
       E_initialize_cache PyNone, E_inject_dll (PyStr ''python311.dll''), E_is_python_injected,
       E_initialize_python, E_is_python_initialized, E_get_proc_address ''Py_Finalize''])"
  by (simp add: method_defs prog_defs demo_defs)

lemma demo_session_eq:
  "demo_session =
      \<lparr>attrs = [''_process'' \<mapsto> ProcessInfo (PyInt 1234) (PyObj 1) (PyStr ''target.exe''),
                ''_dll_path'' \<mapsto> PyStr ''python311.dll'',
                ''_proc_cache'' \<mapsto> PyObj 2,
                ''_remote_dll'' \<mapsto> PyInt 4194304],
       world = \<lparr>process_open = True, dll_loaded = True, python_running = True,
                cache_open = True\<rparr>\<rparr>"
  by (simp add: demo_session_def demo_construct final_def)

lemma demo_cleanup:
  "cleanup demo_env demo_session =
     (Inr PyNone,
      \<lparr>attrs = [''_process'' \<mapsto> ProcessInfo (PyInt 1234) (PyObj 1) (PyStr ''target.exe''),
                ''_dll_path'' \<mapsto> PyStr ''python311.dll'',
                ''_proc_cache'' \<mapsto> PyObj 2,
                ''_remote_dll'' \<mapsto> PyInt 4194304],
       world = \<lparr>process_open = False, dll_loaded = False, python_running = False,
                cache_open = False\<rparr>\<rparr>,
      [E_execute_remote ''Py_Finalize'' [], E_unload_dll (PyInt 4194304),
       E_close_process, E_close_cache])"
  by (simp add: demo_session_eq cleanup_def cleanup_remote_def prog_defs demo_defs)

section \<open>The claims\<close>

subsection \<open>Construction\<close>

text \<open>
  Claim C1. A construction that fails after the process handle has been opened should run
  the cleanup and raise one \<open>InitializationError\<close>, with no handle left open. The code
  does not: here \<open>OpenProcess\<close> succeeds on process 1234 and \<open>GetModuleFileNameEx\<close>
  is refused. The constructor raises \<open>RemotePythonError\<close>, the only calls made are the
  two Win32 calls, so neither \<open>cleanup\<close> nor \<open>_close_process\<close> runs, and the process
  is still open in the world that is left.
\<close>

theorem construction_leaks_handle:
  "construct failing_modname_env (PyInt 1234) PyNone PyNone idle_target =
     (Inl (Exn RemotePythonError ''Failed to initialize process: Access is denied.''),
      \<lparr>attrs = Map.empty,
       world = \<lparr>process_open = True, dll_loaded = False, python_running = False,
                cache_open = False\<rparr>\<rparr>,
      [E_OpenProcess (PyInt 1234), E_GetModuleFileNameEx (PyObj 1)])"
  by (simp add: method_defs prog_defs demo_defs)

text \<open>
  What the path through \<open>_inject_and_initialize\<close> does, by comparison. When the three
  assignments of lines 54--56 have succeeded and \<open>__init__\<close> still fails, the failure
  arose in the \<open>try\<close> body of \<open>_inject_and_initialize\<close>; \<open>cleanup\<close> was then run from
  the state of the failure, so \<open>_close_process\<close> was called. The exception that reaches
  the caller is the one \<open>cleanup\<close> raised, if it raised, and otherwise a
  \<open>RemotePythonError\<close> whose text is \<open>Injection/initialization failed: \<close> followed by
  the cause: the \<open>InjectionError\<close> of line 79 and the \<open>InitializationError\<close> of line 83
  are caught by line 89 and lose their class.
\<close>

theorem construction_failure_runs_cleanup:
  assumes attributes: "init_attributes env p python_dll_path shelf_name s = (Inr v, s0, t0)"
      and failed: "outcome (init env p python_dll_path shelf_name s) = Inl e"
  shows "\<exists>c s1 t1. inject_and_initialize_body env s0 = (Inl c, s1, t1) \<and>
      events (init env p python_dll_path shelf_name s) = t0 @ t1 @ events (cleanup env s1) \<and>
      final (init env p python_dll_path shelf_name s) = final (cleanup env s1) \<and>
      E_close_process \<in> set (events (cleanup env s1)) \<and>
      e = (case outcome (cleanup env s1) of
             Inl x \<Rightarrow> x
           | Inr u \<Rightarrow> Exn RemotePythonError (''Injection/initialization failed: '' @ msg c))"
proof (cases "inject_and_initialize_body env s0")
  case (fields r s1 t1)
  show ?thesis
  proof (cases r)
    case (Inr b)
    with fields have body: "inject_and_initialize_body env s0 = (Inr (PyBool True), s1, t1)"
      using body_returns_True by blast
    have "outcome (init env p python_dll_path shelf_name s) = Inr PyNone"
      using attributes inject_and_initialize_ok [OF body]
      by (simp add: init_def bind_def ret_def outcome_def)
    with failed show ?thesis by simp
  next
    case (Inl c)
    with fields have body: "inject_and_initialize_body env s0 = (Inl c, s1, t1)"
      by simp
    have i: "init env p python_dll_path shelf_name s =
        ((case outcome (cleanup env s1) of
           Inl x \<Rightarrow> Inl x
         | Inr u \<Rightarrow> Inl (Exn RemotePythonError (''Injection/initialization failed: '' @ msg c))),
        final (cleanup env s1), t0 @ t1 @ events (cleanup env s1))"
      using attributes inject_and_initialize_failed [OF body]
      by (simp add: init_def bind_def split: sum.splits)
    have "e = (case outcome (cleanup env s1) of
             Inl x \<Rightarrow> x
           | Inr u \<Rightarrow> Exn RemotePythonError (''Injection/initialization failed: '' @ msg c))"
      using failed unfolding i outcome_def by (simp split: sum.splits)
    with body i cleanup_calls_close_process [of env s1] show ?thesis
      by (simp add: events_def final_def)
  qed
qed

text \<open>
  The theorem at work: the library cannot be injected into process 1234. The attributes
  are set, the construction fails with the wrapped cause, and the process and the cache
  have been closed.
\<close>

theorem construction_failure_witness:
  "init_attributes failing_inject_env (PyInt 1234) PyNone PyNone fresh_session =
     (Inr PyNone,
      \<lparr>attrs = [''_process'' \<mapsto> ProcessInfo (PyInt 1234) (PyObj 1) (PyStr ''target.exe''),
                ''_dll_path'' \<mapsto> PyStr ''python311.dll'',
                ''_proc_cache'' \<mapsto> PyObj 2],
       world = \<lparr>process_open = True, dll_loaded = False, python_running = False,
                cache_open = True\<rparr>\<rparr>,
      [E_OpenProcess (PyInt 1234), E_GetModuleFileNameEx (PyObj 1), E_get_default_python_dll,
       E_initialize_cache PyNone]) \<and>
   outcome (init failing_inject_env (PyInt 1234) PyNone PyNone fresh_session) =
     Inl (Exn RemotePythonError ''Injection/initialization failed: injection refused'') \<and>
   (\<exists>s1. final (init failing_inject_env (PyInt 1234) PyNone PyNone fresh_session) =
            final (cleanup failing_inject_env s1) \<and>
          E_close_process \<in> set (events (cleanup failing_inject_env s1)))"
proof -
  have a: "init_attributes failing_inject_env (PyInt 1234) PyNone PyNone fresh_session =
     (Inr PyNone,
      \<lparr>attrs = [''_process'' \<mapsto> ProcessInfo (PyInt 1234) (PyObj 1) (PyStr ''target.exe''),
                ''_dll_path'' \<mapsto> PyStr ''python311.dll'',
                ''_proc_cache'' \<mapsto> PyObj 2],
       world = \<lparr>process_open = True, dll_loaded = False, python_running = False,
                cache_open = True\<rparr>\<rparr>,
      [E_OpenProcess (PyInt 1234), E_GetModuleFileNameEx (PyObj 1), E_get_default_python_dll,
       E_initialize_cache PyNone])"
    by (simp add: method_defs prog_defs demo_defs)
  have f: "outcome (init failing_inject_env (PyInt 1234) PyNone PyNone fresh_session) =
     Inl (Exn RemotePythonError ''Injection/initialization failed: injection refused'')"
    by (simp add: method_defs prog_defs demo_defs)
  from construction_failure_runs_cleanup [OF a f] a f show ?thesis
    by blast
qed

text \<open>
  The error that a failed injection raises from the constructor is of class
  \<open>RemotePythonError\<close>, the base class, not \<open>InitializationError\<close>.
\<close>

theorem construction_error_kind_counterexample:
  "outcome (construct failing_inject_env (PyInt 1234) PyNone PyNone idle_target) =
     Inl (Exn RemotePythonError ''Injection/initialization failed: injection refused'')"
  by (simp add: method_defs prog_defs demo_defs)

text \<open>
  Failures that come before the injection. When
  \<open>_initialize_process\<close> has returned and \<open>_initialize_cache\<close> raises, \<open>__init__\<close>
  lets that exception through as it is and calls nothing more: no \<open>cleanup\<close> runs, and
  the process that was opened is not closed.
\<close>

theorem cache_failure_skips_cleanup:
  assumes opened: "initialize_process env p s = (Inr process, s1, t1)"
      and given: "truthy python_dll_path"
      and cache: "initialize_cache env shelf_name
                    (s1\<lparr>attrs := (attrs s1)(''_process'' \<mapsto> process,
                                             ''_dll_path'' \<mapsto> python_dll_path)\<rparr>) = (Inl e, s2)"
  shows "init env p python_dll_path shelf_name s =
           (Inl e, s2, t1 @ [E_initialize_cache shelf_name])"
  using assms
  by (simp add: init_def init_attributes_def bind_def call_def set_attr_def ret_def)

theorem cache_failure_witness:
  "init failing_cache_env (PyInt 1234) (PyStr ''python311.dll'') PyNone fresh_session =
     (Inl (Exn (External ''OSError'') ''cannot open shelf''),
      \<lparr>attrs = [''_process'' \<mapsto> ProcessInfo (PyInt 1234) (PyObj 1) (PyStr ''target.exe''),
                ''_dll_path'' \<mapsto> PyStr ''python311.dll''],
       world = \<lparr>process_open = True, dll_loaded = False, python_running = False,
                cache_open = False\<rparr>\<rparr>,
      [E_OpenProcess (PyInt 1234), E_GetModuleFileNameEx (PyObj 1), E_initialize_cache PyNone])"
proof -
  have o: "initialize_process failing_cache_env (PyInt 1234) fresh_session =
     (Inr (ProcessInfo (PyInt 1234) (PyObj 1) (PyStr ''target.exe'')),
      \<lparr>attrs = Map.empty,
       world = \<lparr>process_open = True, dll_loaded = False, python_running = False,
                cache_open = False\<rparr>\<rparr>,
      [E_OpenProcess (PyInt 1234), E_GetModuleFileNameEx (PyObj 1)])"
    by (simp add: initialize_process_def prog_defs demo_defs)
  have g: "truthy (PyStr ''python311.dll'')"
    by simp
  have c: "initialize_cache failing_cache_env PyNone
     (\<lparr>attrs = Map.empty,
       world = \<lparr>process_open = True, dll_loaded = False, python_running = False,
                cache_open = False\<rparr>\<rparr>
      \<lparr>attrs := (attrs \<lparr>attrs = Map.empty,
       world = \<lparr>process_open = True, dll_loaded = False, python_running = False,
                cache_open = False\<rparr>\<rparr>)
         (''_process'' \<mapsto> ProcessInfo (PyInt 1234) (PyObj 1) (PyStr ''target.exe''),
          ''_dll_path'' \<mapsto> PyStr ''python311.dll'')\<rparr>) =
     (Inl (Exn (External ''OSError'') ''cannot open shelf''),
      \<lparr>attrs = [''_process'' \<mapsto> ProcessInfo (PyInt 1234) (PyObj 1) (PyStr ''target.exe''),
                ''_dll_path'' \<mapsto> PyStr ''python311.dll''],
       world = \<lparr>process_open = True, dll_loaded = False, python_running = False,
                cache_open = False\<rparr>\<rparr>)"
    by (simp add: demo_defs)
  from cache_failure_skips_cleanup [OF o g c] show ?thesis
    by simp
qed

text \<open>
  Claim C8. When \<open>OpenProcess\<close> raises, the constructor raises \<open>RemotePythonError\<close>
  with the text \<open>Failed to initialize process: \<close> and the cause (the error the
  specification calls ProcessOpenError), the object has no attribute, and
  \<open>OpenProcess\<close> is the only call that was made: nothing was injected or executed.
\<close>

theorem open_failure_stops_construction:
  assumes "OpenProcess env p w = (Inl e, w1)"
  shows "construct env p python_dll_path shelf_name w =
     (Inl (Exn RemotePythonError (''Failed to initialize process: '' @ msg e)),
      \<lparr>attrs = Map.empty, world = w1\<rparr>, [E_OpenProcess p])"
  using assms
  by (simp add: construct_def init_def init_attributes_def initialize_process_def bind_def
      try_except_def call_os_def throw_def)

theorem open_failure_witness:
  "OpenProcess demo_env (PyInt 7) idle_target =
     (Inl (Exn (External ''pywintypes.error'') ''The parameter is incorrect.''), idle_target) \<and>
   construct demo_env (PyInt 7) PyNone PyNone idle_target =
     (Inl (Exn RemotePythonError ''Failed to initialize process: The parameter is incorrect.''),
      \<lparr>attrs = Map.empty, world = idle_target\<rparr>, [E_OpenProcess (PyInt 7)])"
proof -
  have h: "OpenProcess demo_env (PyInt 7) idle_target =
     (Inl (Exn (External ''pywintypes.error'') ''The parameter is incorrect.''), idle_target)"
    by (simp add: demo_env_def)
  from open_failure_stops_construction [OF h, of PyNone PyNone] h show ?thesis
    by simp
qed


subsection \<open>Cleanup\<close>

text \<open>
  Claim C2, as amended. The guarded statement of \<open>cleanup\<close> (the \<open>Py_Finalize\<close> call
  and the unload, lines 126--132) always completes: whatever \<open>_execute_remote\<close> and
  \<open>_unload_dll\<close> raise is swallowed. The calls of \<open>_close_process\<close> and
  \<open>_close_cache\<close> in lines 134--135 are not guarded: \<open>cleanup\<close> raises exactly
  what \<open>_close_process\<close> raises or, when that returned, what \<open>_close_cache\<close> raises,
  and returns \<open>None\<close> when both return.
\<close>

theorem cleanup_outcome:
  "\<exists>s1 t1. cleanup_remote env s = (Inr PyNone, s1, t1) \<and>
     outcome (cleanup env s) =
       (case close_process env s1 of
          (Inl e, s2) \<Rightarrow> Inl e
        | (Inr v, s2) \<Rightarrow>
            (case close_cache env s2 of (Inl e, s3) \<Rightarrow> Inl e | (Inr w, s3) \<Rightarrow> Inr PyNone))"
proof -
  obtain s1 t1 where r: "cleanup_remote env s = (Inr PyNone, s1, t1)"
    using cleanup_remote_returns by blast
  have "outcome (cleanup env s) =
       (case close_process env s1 of
          (Inl e, s2) \<Rightarrow> Inl e
        | (Inr v, s2) \<Rightarrow>
            (case close_cache env s2 of (Inl e, s3) \<Rightarrow> Inl e | (Inr w, s3) \<Rightarrow> Inr PyNone))"
    unfolding cleanup_unfold [OF r] outcome_def
    by (simp split: prod.splits sum.splits)
  with r show ?thesis by blast
qed

text \<open>
  The theorem at work: with a remote execution that always fails, the guarded statement
  still completes and \<open>cleanup\<close> returns \<open>None\<close>.
\<close>

theorem cleanup_outcome_witness:
  "\<exists>s1 t1. cleanup_remote failing_run_env demo_session = (Inr PyNone, s1, t1) \<and>
     outcome (cleanup failing_run_env demo_session) = Inr PyNone"
proof -
  obtain s1 t1 where r: "cleanup_remote failing_run_env demo_session = (Inr PyNone, s1, t1)"
    and o: "outcome (cleanup failing_run_env demo_session) =
       (case close_process failing_run_env s1 of
          (Inl e, s2) \<Rightarrow> Inl e
        | (Inr v, s2) \<Rightarrow>
            (case close_cache failing_run_env s2 of
               (Inl e, s3) \<Rightarrow> Inl e | (Inr w, s3) \<Rightarrow> Inr PyNone))"
    using cleanup_outcome [of failing_run_env demo_session] by blast
  have "outcome (cleanup failing_run_env demo_session) = Inr PyNone"
    unfolding o by (simp add: failing_run_env_def demo_env_def)
  with r show ?thesis by blast
qed

text \<open>
  Claim C2 as stated fails: when closing the process handle fails, \<open>cleanup\<close> raises.
\<close>

theorem cleanup_raises_counterexample:
  "outcome (cleanup failing_close_env demo_session) =
     Inl (Exn (External ''OSError'') ''invalid handle'')"
  by (simp add: demo_session_eq cleanup_def cleanup_remote_def prog_defs demo_defs)

text \<open>
  Claim C3, as amended. \<open>cleanup\<close> keeps no record of having run. An invocation that
  follows an earlier one calls \<open>_close_process\<close> again, and while the object still has
  the attribute \<open>_remote_dll\<close> it starts by calling \<open>_execute_remote("Py_Finalize")\<close>
  again.
\<close>

theorem cleanup_again_releases_again:
  "E_close_process \<in> set (events (cleanup env (final (cleanup env s)))) \<and>
   (hasattr ''_remote_dll'' (final (cleanup env s)) \<longrightarrow>
      hd (events (cleanup env (final (cleanup env s)))) = E_execute_remote ''Py_Finalize'' [])"
  using cleanup_calls_close_process cleanup_first_event by blast

theorem cleanup_again_witness:
  "hasattr ''_remote_dll'' (final (cleanup demo_env demo_session)) \<and>
   E_close_process \<in> set (events (cleanup demo_env (final (cleanup demo_env demo_session)))) \<and>
   hd (events (cleanup demo_env (final (cleanup demo_env demo_session)))) =
     E_execute_remote ''Py_Finalize'' []"
proof -
  have h: "hasattr ''_remote_dll'' (final (cleanup demo_env demo_session))"
    unfolding demo_cleanup by (simp add: final_def hasattr_def)
  with cleanup_again_releases_again [of demo_env demo_session] show ?thesis
    by blast
qed

text \<open>
  Claim C3 as stated fails: on the session built by \<open>RemotePython(1234)\<close>, the second
  \<open>cleanup\<close> executes \<open>Py_Finalize\<close> remotely, unloads the library and closes the
  process and the cache once more.
\<close>

theorem cleanup_twice_counterexample:
  "events (cleanup demo_env (final (cleanup demo_env demo_session))) =
     [E_execute_remote ''Py_Finalize'' [], E_unload_dll (PyInt 4194304),
      E_close_process, E_close_cache]"
  unfolding demo_cleanup final_def fst_conv snd_conv
  by (simp add: cleanup_def cleanup_remote_def prog_defs demo_defs)

subsection \<open>Running code\<close>

text \<open>
  Claim C4, as amended. \<open>run\<close> checks no lifecycle state. After \<open>cleanup\<close>,
  \<open>run(code)\<close> with a string still calls \<open>_execute_remote("PyRun_SimpleString", code)\<close>,
  once; it returns what that call returns, and if the call raises it raises
  \<open>RemotePythonError\<close> with the text \<open>Code execution failed: \<close> and the cause.
\<close>

theorem run_after_cleanup:
  "events (run env (PyStr c) (final (cleanup env s))) =
     [E_execute_remote ''PyRun_SimpleString'' [PyStr c]] \<and>
   outcome (run env (PyStr c) (final (cleanup env s))) =
     (case fst (execute_remote env ''PyRun_SimpleString'' [PyStr c] (final (cleanup env s))) of
        Inr v \<Rightarrow> Inr v
      | Inl e \<Rightarrow> Inl (Exn RemotePythonError (''Code execution failed: '' @ msg e)))"
  by (simp add: run_str events_def outcome_def split: prod.splits sum.splits)

theorem run_after_cleanup_witness:
  "events (run failing_run_env (PyStr ''1'') (final (cleanup failing_run_env demo_session))) =
     [E_execute_remote ''PyRun_SimpleString'' [PyStr ''1'']] \<and>
   outcome (run failing_run_env (PyStr ''1'') (final (cleanup failing_run_env demo_session))) =
     Inl (Exn RemotePythonError ''Code execution failed: thread creation failed'')"
  using run_after_cleanup [of failing_run_env "''1''" demo_session]
  by (simp add: failing_run_env_def demo_env_def os_error_def)

text \<open>
  Claim C4 as stated fails: after \<open>cleanup\<close>, \<open>run("1")\<close> returns the exit code 0.
\<close>

theorem run_after_cleanup_counterexample:
  "outcome (run demo_env (PyStr ''1'') (final (cleanup demo_env demo_session))) = Inr (PyInt 0)"
  by (simp add: demo_cleanup final_def run_def prog_defs demo_defs)




text \<open>
  Claim C9. Calling the session, \<open>s(code)\<close>, is \<open>s.run(code)\<close>: the same outcome (value or
  exception), the same final state and the same calls.
\<close>

theorem call_session_is_run: "call_session env code s = run env code s"
  by (simp add: call_session_def)

theorem call_session_witness:
  "call_session demo_env (PyStr ''1'') demo_session =
     (Inr (PyInt 0), demo_session, [E_execute_remote ''PyRun_SimpleString'' [PyStr ''1'']])"
  unfolding call_session_is_run [of demo_env "PyStr ''1''" demo_session]
  by (simp add: run_def prog_defs demo_env_def)

text \<open>
  Claim C10. For an argument that is not a string, \<open>run\<close> raises \<open>TypeError\<close>, makes
  no call to any collaborator and leaves the state as it was.
\<close>

theorem run_rejects_non_string:
  assumes "\<not> isinstance_str code"
  shows "run env code s = (Inl (Exn TypeError ''Code must be a string''), s, [])"
  using assms by (simp add: run_def throw_def)

theorem run_rejects_non_string_witness:
  "\<not> isinstance_str (PyInt 1) \<and>
   run demo_env (PyInt 1) demo_session =
     (Inl (Exn TypeError ''Code must be a string''), demo_session, [])"
proof -
  have h: "\<not> isinstance_str (PyInt 1)" by simp
  from run_rejects_non_string [OF h] h show ?thesis by simp
qed

subsection \<open>Setting the path\<close>

text \<open>
  Claim C6, as amended. \<open>set_python_path\<close> converts every path with \<open>str(Path(p))\<close>,
  joins the converted paths with \<open>;\<close> and makes one call,
  \<open>_execute_remote("PySys_SetPath", joined)\<close>, with exactly that string. For paths that
  the conversion leaves as they are, the string is the paths themselves joined with
  \<open>;\<close>.
\<close>

theorem set_python_path_forwards:
  "events (set_python_path env paths s) =
     [E_execute_remote ''PySys_SetPath'' [PyStr (join '';'' (map (str_Path env) paths))]] \<and>
   ((\<forall>p \<in> set paths. str_Path env p = p) \<longrightarrow>
      events (set_python_path env paths s) =
        [E_execute_remote ''PySys_SetPath'' [PyStr (join '';'' paths)]])"
proof -
  have e: "events (set_python_path env paths s) =
     [E_execute_remote ''PySys_SetPath'' [PyStr (join '';'' (map (str_Path env) paths))]]"
    by (simp add: set_python_path_def Let_def bind_def call_def ret_def events_def
        split: prod.splits sum.splits)
  have "(\<forall>p \<in> set paths. str_Path env p = p) \<longrightarrow> map (str_Path env) paths = paths"
    by (simp add: map_idI)
  with e show ?thesis by auto
qed

text \<open>
  The theorem at work, on the example of the specification: the paths \<open>C:\a\<close> and
  \<open>C:\b\<close> are forwarded as \<open>C:\a;C:\b\<close>.
\<close>

theorem set_python_path_witness:
  "str_Path demo_env (''C:'' @ [bslash] @ ''a'') = ''C:'' @ [bslash] @ ''a'' \<and>
   str_Path demo_env (''C:'' @ [bslash] @ ''b'') = ''C:'' @ [bslash] @ ''b'' \<and>
   events (set_python_path demo_env [''C:'' @ [bslash] @ ''a'', ''C:'' @ [bslash] @ ''b'']
             demo_session) =
     [E_execute_remote ''PySys_SetPath''
        [PyStr (''C:'' @ [bslash] @ ''a'' @ '';'' @ ''C:'' @ [bslash] @ ''b'')]]"
proof -
  have a: "str_Path demo_env (''C:'' @ [bslash] @ ''a'') = ''C:'' @ [bslash] @ ''a''"
    and b: "str_Path demo_env (''C:'' @ [bslash] @ ''b'') = ''C:'' @ [bslash] @ ''b''"
    by (simp_all add: demo_env_def windows_str_Path_def Let_def is_drive_letter_def bslash_def)
  have "\<forall>p \<in> set [''C:'' @ [bslash] @ ''a'', ''C:'' @ [bslash] @ ''b'']. str_Path demo_env p = p"
    using a b by simp
  with set_python_path_forwards
    [of demo_env "[''C:'' @ [bslash] @ ''a'', ''C:'' @ [bslash] @ ''b'']" demo_session]
  have "events (set_python_path demo_env [''C:'' @ [bslash] @ ''a'', ''C:'' @ [bslash] @ ''b'']
             demo_session) =
     [E_execute_remote ''PySys_SetPath''
        [PyStr (join '';'' [''C:'' @ [bslash] @ ''a'', ''C:'' @ [bslash] @ ''b''])]]"
    by blast
  with a b show ?thesis by simp
qed

text \<open>
  Claim C6 as stated fails: the paths \<open>C:/a\<close> and \<open>C:/b\<close> joined with \<open>;\<close> are
  \<open>C:/a;C:/b\<close>, but the string forwarded is \<open>C:\a;C:\b\<close>.
\<close>

theorem set_python_path_counterexample:
  "events (set_python_path demo_env [''C:/a'', ''C:/b''] demo_session) =
     [E_execute_remote ''PySys_SetPath''
        [PyStr (''C:'' @ [bslash] @ ''a'' @ '';'' @ ''C:'' @ [bslash] @ ''b'')]] \<and>
   join '';'' [''C:/a'', ''C:/b''] = ''C:/a;C:/b'' \<and>
   ''C:/a;C:/b'' \<noteq> ''C:'' @ [bslash] @ ''a'' @ '';'' @ ''C:'' @ [bslash] @ ''b''"
  by (simp add: set_python_path_def prog_defs demo_env_def windows_str_Path_def Let_def
      is_drive_letter_def bslash_def)

subsection \<open>Symbol resolution\<close>

text \<open>
  Claim C7. When a resolution of a symbol returns an address, resolving it again against
  the same module returns the same address and leaves the resolver as it is, so the
  second resolution parses nothing: the parse counter has grown by one if the key was not
  cached before the first resolution (one parse for two resolutions) and not at all if it
  was. The address is the module's base plus the offset that the cache now holds.
\<close>

theorem resolve_twice:
  assumes "resolveAddress exports m symbolName r = (Inr a, r1)"
  shows "resolveAddress exports m symbolName r1 = (Inr a, r1) \<and>
         parses r1 = parses r + (if cache_lookup r (libraryPath m, symbolName) = None then 1 else 0) \<and>
         (\<exists>off. cache_lookup r1 (libraryPath m, symbolName) = Some off \<and> a = baseAddress m + off)"
  using assms
  by (auto simp: resolveAddress_def cache_lookup_def Let_def split: option.splits)

theorem resolve_twice_witness:
  "\<exists>r1. resolveAddress demo_exports demo_module ''Py_Finalize'' cold_resolver = (Inr 4198400, r1) \<and>
        resolveAddress demo_exports demo_module ''Py_Finalize'' r1 = (Inr 4198400, r1) \<and>
        parses r1 = 1"
proof -
  obtain r1 where
    h: "resolveAddress demo_exports demo_module ''Py_Finalize'' cold_resolver = (Inr 4198400, r1)"
    by (simp add: resolveAddress_def cache_lookup_def Let_def demo_exports_def demo_module_def
        cold_resolver_def)
  have "cache_lookup cold_resolver (libraryPath demo_module, ''Py_Finalize'') = None"
    and "parses cold_resolver = 0"
    by (simp_all add: cache_lookup_def cold_resolver_def)
  with resolve_twice [OF h] h show ?thesis
    by auto
qed


end
